theory Spec2Isabelle
  imports Main
begin

section \<open>Private blockchain (src/src/blockchain.js): data model\<close>

text \<open>
  JavaScript values that the fields of a block can hold. The numbers that are stored in a
  field are small integers, so a number is an \<open>int\<close> here; \<open>NaN\<close> only arises
  from \<open>parseInt\<close> and is modelled there by \<open>None\<close>.
\<close>

datatype jsval = JUndefined | JNull | JNum int | JStr string

text \<open>
  The object built by \<open>new BlockClass.Block(data)\<close>. The class itself lives in
  \<open>block.js\<close>; \<open>blockchain.js\<close> reads and writes the five fields below.
  The body is whatever the constructor makes of its argument.
\<close>

record 'b Block =
  hash :: jsval
  height :: nat
  body :: 'b
  time :: jsval
  previousBlockHash :: jsval

text \<open>The two object literals handed to the \<open>Block\<close> constructor.\<close>

datatype 's blockData =
    Data string             \<comment> \<open>\<open>{data: 'Genesis Block'}\<close>\<close>
  | OwnerStar string 's     \<comment> \<open>\<open>{'owner': address, 'star': star}\<close>\<close>

text \<open>\<open>this.chain\<close> and \<open>this.height\<close> of the class \<open>Blockchain\<close>.\<close>

record 'b Blockchain =
  chain :: "'b Block list"
  height :: int

text \<open>
  The errors the class rejects with, named after their messages:
  \<open>"5 minute validation time has passed"\<close>, \<open>"Verification is invalid"\<close>,
  \<open>"Blockchain is not valid!"\<close>; \<open>Thrown\<close> is an exception of a collaborator
  caught by a \<open>try\<close> block and passed on with \<open>reject(error)\<close>.
\<close>

datatype error =
    ChallengeExpiredError
  | SignatureInvalidError
  | ChainIntegrityError
  | Thrown string

text \<open>
  How a returned promise ends. Every method wraps its work in
  \<open>new Promise(async (resolve, reject) => ...)\<close>: an exception that escapes the
  \<open>async\<close> executor rejects the executor's own, discarded, promise, and the promise
  handed to the caller is then never settled.
\<close>

datatype 'a promise = Resolved 'a | Rejected error | Unsettled

text \<open>What \<open>validateChain\<close> resolves with: the string \<open>'Blockchain is valid'\<close>,
  or the object \<open>{'Block errors': n, 'Blocks': errorLog}\<close>.\<close>

datatype validation = Valid | Invalid nat "nat list"

section \<open>Strings and numbers of the JavaScript runtime\<close>

definition digitChar :: "nat \<Rightarrow> char" where
  "digitChar d = ''0123456789'' ! d"

text \<open>\<open>Number.prototype.toString\<close> on a non-negative integer: its decimal digits.\<close>

fun toString :: "nat \<Rightarrow> string" where
  "toString n = (if n < 10 then [digitChar n] else toString (n div 10) @ [digitChar (n mod 10)])"

declare toString.simps [simp del]

text \<open>\<open>String.prototype.slice(start, fin)\<close>: negative positions count from the end,
  and both are clamped to the string.\<close>

definition slice :: "string \<Rightarrow> int \<Rightarrow> int \<Rightarrow> string" where
  "slice s start fin =
     (let len = int (length s);
          from = (if start < 0 then max (len + start) 0 else min start len);
          to = (if fin < 0 then max (len + fin) 0 else min fin len)
      in take (nat (max (to - from) 0)) (drop (nat from) s))"

text \<open>\<open>String.prototype.split(sep)\<close> for a one-character separator.\<close>

fun split :: "char \<Rightarrow> string \<Rightarrow> string list" where
  "split sep [] = [] # []"
| "split sep (c # cs) =
     (if c = sep then [] # split sep cs
      else (case split sep cs of [] \<Rightarrow> [c] # [] | w # ws \<Rightarrow> (c # w) # ws))"

text \<open>
  \<open>parseInt(string)\<close> without a radix, as ECMAScript defines it: leading white space
  is dropped, then a sign, then a \<open>0x\<close> prefix selects radix 16, and the longest run of
  digits of the radix is the number; no digit at all gives \<open>NaN\<close>, here \<open>None\<close>.
  Characters are code units below 256. The result is the exact integer, where JavaScript
  has the nearest double: the two differ only beyond \<open>2 ^ 53\<close>, and as rounding is
  monotone and clock readings are far smaller, the test \<open>currentTime - messageTime >= 300\<close>
  comes out the same on both.
\<close>

definition isWhiteSpace :: "char \<Rightarrow> bool" where
  "isWhiteSpace c = ((of_char c :: nat) \<in> {9, 10, 11, 12, 13, 32, 160})"

definition digitValue :: "char \<Rightarrow> nat option" where
  "digitValue c =
     (let n = (of_char c :: nat)
      in if 48 \<le> n \<and> n \<le> 57 then Some (n - 48)
         else if 97 \<le> n \<and> n \<le> 122 then Some (n - 87)
         else if 65 \<le> n \<and> n \<le> 90 then Some (n - 55)
         else None)"

definition isRadixDigit :: "nat \<Rightarrow> char \<Rightarrow> bool" where
  "isRadixDigit R c = (case digitValue c of None \<Rightarrow> False | Some d \<Rightarrow> d < R)"

definition radixValue :: "nat \<Rightarrow> string \<Rightarrow> nat" where
  "radixValue R Z = foldl (\<lambda>acc c. acc * R + (case digitValue c of None \<Rightarrow> 0 | Some d \<Rightarrow> d)) 0 Z"

definition parseInt :: "string \<Rightarrow> int option" where
  "parseInt inputString =
     (let S = dropWhile isWhiteSpace inputString;
          sign = (if S \<noteq> [] \<and> hd S = CHR ''-'' then - 1 else (1 :: int));
          S = (if S \<noteq> [] \<and> (hd S = CHR ''+'' \<or> hd S = CHR ''-'') then tl S else S);
          hex = (2 \<le> length S \<and> (take 2 S = ''0x'' \<or> take 2 S = ''0X''));
          R = (if hex then 16 else 10);
          S = (if hex then drop 2 S else S);
          Z = takeWhile (isRadixDigit R) S
      in if Z = [] then None else Some (sign * int (radixValue R Z)))"

text \<open>\<open>a - b\<close> and \<open>a >= b\<close> on numbers that may be \<open>NaN\<close>: a difference with
  \<open>NaN\<close> is \<open>NaN\<close>, and every comparison with \<open>NaN\<close> is false.\<close>

definition minusNum :: "int option \<Rightarrow> int option \<Rightarrow> int option" where
  "minusNum a b = (case (a, b) of (Some x, Some y) \<Rightarrow> Some (x - y) | _ \<Rightarrow> None)"

definition geNum :: "int option \<Rightarrow> int \<Rightarrow> bool" where
  "geNum a b = (case a of None \<Rightarrow> False | Some x \<Rightarrow> b \<le> x)"

text \<open>\<open>new Date().getTime().toString().slice(0,-3)\<close> for a clock reading of \<open>now\<close>
  milliseconds since the epoch.\<close>

definition timeStamp :: "nat \<Rightarrow> string" where
  "timeStamp now = slice (toString now) 0 (- 3)"

section \<open>The class Blockchain\<close>

text \<open>
  The collaborators are parameters: \<open>SHA256\<close> (crypto-js, followed by
  \<open>.toString()\<close>), \<open>stringify\<close> (\<open>JSON.stringify\<close> on a block object, which
  serialises every field the object has at that moment), \<open>newBlock\<close> (the constructor of
  \<open>Block\<close>), \<open>validate\<close> and \<open>getBData\<close> (the methods of \<open>Block\<close>) and
  \<open>verify\<close> (\<open>bitcoinMessage.verify\<close>, which returns a boolean or throws).
  \<open>validate\<close> always answers with a boolean, \<open>getBData\<close> may fail.
  The clock is an argument: \<open>now\<close> is the reading of \<open>new Date().getTime()\<close>, a
  non-negative number of milliseconds. Calls run one after the other, each to its end.
\<close>

text \<open>The loop of \<open>validateChain\<close>, lines 225 to 236, from index \<open>i\<close> with the
  \<open>errorLog\<close> collected so far.\<close>

function validateChain_loop ::
  "('b Block \<Rightarrow> bool) \<Rightarrow> 'b Block list \<Rightarrow> nat \<Rightarrow> nat list \<Rightarrow> nat list" where
  "validateChain_loop validate chn i errorLog =
     (if int i < int (length chn) - 1 then
        (let errorLog = (if \<not> validate (chn ! i) then errorLog @ [i] else errorLog);
             blockHash = hash (chn ! i);
             previousHash = previousBlockHash (chn ! (i + 1));
             errorLog = (if blockHash \<noteq> previousHash then errorLog @ [i] else errorLog)
         in validateChain_loop validate chn (i + 1) errorLog)
      else errorLog)"
  by pat_completeness auto
termination
  by (relation "measure (\<lambda>(validate, chn, i, errorLog). length chn - i)") auto

declare validateChain_loop.simps [simp del]

definition validateChain :: "('b Block \<Rightarrow> bool) \<Rightarrow> 'b Blockchain \<Rightarrow> validation" where
  "validateChain validate self =
     (let errorLog = validateChain_loop validate (chain self) 0 []
      in if length errorLog > 0 then Invalid (length errorLog) errorLog else Valid)"

text \<open>
  \<open>_addBlock(block)\<close>, lines 58 to 89. The result is the promise's end and the object's
  new state. The block is a fresh object, as both callers make it with \<open>new\<close>.
\<close>

definition addBlock ::
  "(string \<Rightarrow> string) \<Rightarrow> ('b Block \<Rightarrow> string) \<Rightarrow> ('b Block \<Rightarrow> bool) \<Rightarrow>
   'b Blockchain \<Rightarrow> 'b Block \<Rightarrow> nat \<Rightarrow> 'b Block promise \<times> 'b Blockchain" where
  "addBlock SHA256 stringify validate self block now =
     (let block = block\<lparr>Block.height := length (chain self)\<rparr>;
          block = block\<lparr>time := JStr (timeStamp now)\<rparr>;
          block = (if length (chain self) > 0
                   then block\<lparr>previousBlockHash := hash (chain self ! (length (chain self) - 1))\<rparr>
                   else block);
          block = block\<lparr>hash := JStr (SHA256 (stringify block))\<rparr>;
          self = self\<lparr>chain := chain self @ [block]\<rparr>;
          self = self\<lparr>height := int (length (chain self)) - 1\<rparr>;
          validate_result = validateChain validate self
      in if validate_result = Valid then (Resolved block, self)
         else (Rejected ChainIntegrityError, self))"

text \<open>\<open>initializeChain()\<close> and the constructor, lines 25 to 41.\<close>

definition initializeChain ::
  "(string \<Rightarrow> string) \<Rightarrow> ('b Block \<Rightarrow> string) \<Rightarrow> ('b Block \<Rightarrow> bool) \<Rightarrow>
   ('s blockData \<Rightarrow> 'b Block) \<Rightarrow> 'b Blockchain \<Rightarrow> nat \<Rightarrow> 'b Blockchain" where
  "initializeChain SHA256 stringify validate newBlock self now =
     (if height self = - 1
      then (let block = newBlock (Data ''Genesis Block'')
            in snd (addBlock SHA256 stringify validate self block now))
      else self)"

definition constructor ::
  "(string \<Rightarrow> string) \<Rightarrow> ('b Block \<Rightarrow> string) \<Rightarrow> ('b Block \<Rightarrow> bool) \<Rightarrow>
   ('s blockData \<Rightarrow> 'b Block) \<Rightarrow> nat \<Rightarrow> 'b Blockchain" where
  "constructor SHA256 stringify validate newBlock now =
     initializeChain SHA256 stringify validate newBlock \<lparr>chain = [], height = - 1\<rparr> now"

text \<open>\<open>requestMessageOwnershipVerification(address)\<close>, lines 99 to 105.\<close>

definition requestMessageOwnershipVerification :: "string \<Rightarrow> nat \<Rightarrow> string" where
  "requestMessageOwnershipVerification address now =
     address @ '':'' @ timeStamp now @ '':starRegistry''"

text \<open>\<open>parseInt(message.split(':')[1])\<close>: a missing second field is \<open>undefined\<close>,
  which \<open>parseInt\<close> reads as the string \<open>"undefined"\<close>.\<close>

definition messageTime :: "string \<Rightarrow> int option" where
  "messageTime message =
     (case split CHR '':'' message of
        _ # field # _ \<Rightarrow> parseInt field
      | _ \<Rightarrow> parseInt ''undefined'')"

definition currentTime :: "nat \<Rightarrow> int option" where
  "currentTime now = parseInt (timeStamp now)"

text \<open>
  \<open>submitStar(address, message, signature, star)\<close>, lines 124 to 154. The clock is
  read twice: \<open>now\<close> on line 129 and \<open>now'\<close> inside \<open>_addBlock\<close>. The block that
  \<open>resolve(newBlock)\<close> hands out is the object \<open>_addBlock\<close> has filled in.
\<close>

definition submitStar ::
  "(string \<Rightarrow> string) \<Rightarrow> ('b Block \<Rightarrow> string) \<Rightarrow> ('b Block \<Rightarrow> bool) \<Rightarrow>
   ('s blockData \<Rightarrow> 'b Block) \<Rightarrow> (string \<Rightarrow> string \<Rightarrow> string \<Rightarrow> string + bool) \<Rightarrow>
   'b Blockchain \<Rightarrow> string \<Rightarrow> string \<Rightarrow> string \<Rightarrow> 's \<Rightarrow> nat \<Rightarrow> nat \<Rightarrow>
   'b Block promise \<times> 'b Blockchain" where
  "submitStar SHA256 stringify validate newBlock verify self address message signature star now now' =
     (let maxElapsedTime = 60 * 5
      in if geNum (minusNum (currentTime now) (messageTime message)) maxElapsedTime
         then (Rejected ChallengeExpiredError, self)
         else (case verify message address signature of
                 Inl e \<Rightarrow> (Rejected (Thrown e), self)
               | Inr validation \<Rightarrow>
                   if \<not> validation then (Rejected SignatureInvalidError, self)
                   else (let newBlock = newBlock (OwnerStar address star)
                         in addBlock SHA256 stringify validate self newBlock now')))"

text \<open>
  \<open>getStarsByWalletAddress(address)\<close>, lines 197 to 212: the loop from index \<open>i\<close>
  with the \<open>stars\<close> collected so far. \<open>getBData\<close> gives the decoded object or fails
  (\<open>Inl\<close>); \<open>owner\<close> reads its \<open>owner\<close> property. There is no \<open>try\<close> around
  the \<open>await\<close>, so a failure escapes the executor.
\<close>

function getStars_loop ::
  "('b Block \<Rightarrow> string + 'd) \<Rightarrow> ('d \<Rightarrow> jsval) \<Rightarrow> 'b Block list \<Rightarrow> string \<Rightarrow>
   nat \<Rightarrow> 'd list \<Rightarrow> 'd list promise" where
  "getStars_loop getBData owner chn address i stars =
     (if i < length chn then
        (case getBData (chn ! i) of
           Inl e \<Rightarrow> Unsettled
         | Inr blockData \<Rightarrow>
             getStars_loop getBData owner chn address (i + 1)
               (if owner blockData = JStr address then stars @ [blockData] else stars))
      else Resolved stars)"
  by pat_completeness auto
termination
  by (relation "measure (\<lambda>(getBData, owner, chn, address, i, stars). length chn - i)") auto

declare getStars_loop.simps [simp del]

definition getStarsByWalletAddress ::
  "('b Block \<Rightarrow> string + 'd) \<Rightarrow> ('d \<Rightarrow> jsval) \<Rightarrow> 'b Blockchain \<Rightarrow> string \<Rightarrow> 'd list promise" where
  "getStarsByWalletAddress getBData owner self address =
     getStars_loop getBData owner (chain self) address 1 []"

section \<open>Notions used to state the properties\<close>

text \<open>The block that \<open>_addBlock\<close> pushes: the last element of the new chain.\<close>

definition appended ::
  "(string \<Rightarrow> string) \<Rightarrow> ('b Block \<Rightarrow> string) \<Rightarrow> ('b Block \<Rightarrow> bool) \<Rightarrow>
   'b Blockchain \<Rightarrow> 'b Block \<Rightarrow> nat \<Rightarrow> 'b Block" where
  "appended SHA256 stringify validate self block now =
     last (chain (snd (addBlock SHA256 stringify validate self block now)))"

text \<open>A run of appends, each given its block and its clock reading; the run counts only
  if every promise resolves.\<close>

fun appendAll ::
  "(string \<Rightarrow> string) \<Rightarrow> ('b Block \<Rightarrow> string) \<Rightarrow> ('b Block \<Rightarrow> bool) \<Rightarrow>
   'b Blockchain \<Rightarrow> ('b Block \<times> nat) list \<Rightarrow> 'b Blockchain option" where
  "appendAll SHA256 stringify validate self [] = Some self"
| "appendAll SHA256 stringify validate self ((block, now) # rest) =
     (case addBlock SHA256 stringify validate self block now of
        (Resolved b, self') \<Rightarrow> appendAll SHA256 stringify validate self' rest
      | (Rejected e, self') \<Rightarrow> None
      | (Unsettled, self') \<Rightarrow> None)"

text \<open>
  The validation pass in the words of its description: what index \<open>i\<close> contributes
  to the error list (once for a failed self-check, once more for a broken link), and the
  list over the indices \<open>0\<close> to \<open>length - 2\<close>.
\<close>

definition errorsAt :: "('b Block \<Rightarrow> bool) \<Rightarrow> 'b Block list \<Rightarrow> nat \<Rightarrow> nat list" where
  "errorsAt validate chn i =
     (if \<not> validate (chn ! i) then [i] else []) @
     (if hash (chn ! i) \<noteq> previousBlockHash (chn ! (i + 1)) then [i] else [])"

definition recordedErrors :: "('b Block \<Rightarrow> bool) \<Rightarrow> 'b Block list \<Rightarrow> nat list" where
  "recordedErrors validate chn = concat (map (errorsAt validate chn) [0 ..< length chn - 1])"

text \<open>The test of line 135 on its own: the challenge is rejected as too old.\<close>

definition challengeExpired :: "nat \<Rightarrow> string \<Rightarrow> bool" where
  "challengeExpired now message =
     geNum (minusNum (currentTime now) (messageTime message)) (60 * 5)"

section \<open>Stand-ins for the collaborators, for concrete runs\<close>

text \<open>
  A block whose body is the constructor's argument itself, a serialiser that writes the
  five fields in a fixed order, the identity as a collision-free digest, self-checks and
  signature checks with a fixed answer, a signature check that throws, and a decoder that
  fails on one marked body.
\<close>

definition sampleNewBlock :: "string blockData \<Rightarrow> string blockData Block" where
  "sampleNewBlock d =
     \<lparr>hash = JNull, height = 0, body = d, time = JNum 0, previousBlockHash = JNull\<rparr>"

fun renderVal :: "jsval \<Rightarrow> string" where
  "renderVal JUndefined = ''undefined''"
| "renderVal JNull = ''null''"
| "renderVal (JNum n) = (if n < 0 then ''-'' @ toString (nat (- n)) else toString (nat n))"
| "renderVal (JStr s) = ''<'' @ s @ ''>''"

fun renderData :: "string blockData \<Rightarrow> string" where
  "renderData (Data s) = ''{data:'' @ s @ ''}''"
| "renderData (OwnerStar a s) = ''{owner:'' @ a @ '',star:'' @ s @ ''}''"

definition sampleStringify :: "string blockData Block \<Rightarrow> string" where
  "sampleStringify b =
     ''{hash:'' @ renderVal (hash b) @ '',height:'' @ toString (Block.height b) @
     '',body:'' @ renderData (body b) @ '',time:'' @ renderVal (time b) @
     '',previousBlockHash:'' @ renderVal (previousBlockHash b) @ ''}''"

definition sampleDigest :: "string \<Rightarrow> string" where
  "sampleDigest s = s"

definition alwaysValid :: "'b Block \<Rightarrow> bool" where
  "alwaysValid b = True"

definition neverValid :: "'b Block \<Rightarrow> bool" where
  "neverValid b = False"

definition acceptingVerify :: "string \<Rightarrow> string \<Rightarrow> string \<Rightarrow> string + bool" where
  "acceptingVerify message address signature = Inr True"

definition rejectingVerify :: "string \<Rightarrow> string \<Rightarrow> string \<Rightarrow> string + bool" where
  "rejectingVerify message address signature = Inr False"

definition throwingVerify :: "string \<Rightarrow> string \<Rightarrow> string \<Rightarrow> string + bool" where
  "throwingVerify message address signature = Inl ''Invalid signature length''"

definition sampleGetBData :: "string blockData Block \<Rightarrow> string + string blockData" where
  "sampleGetBData b =
     (if body b = Data ''garbled'' then Inl ''SyntaxError'' else Inr (body b))"

fun sampleOwner :: "string blockData \<Rightarrow> jsval" where
  "sampleOwner (Data s) = JUndefined"
| "sampleOwner (OwnerStar a s) = JStr a"

text \<open>A store built at clock reading \<open>1700000000123\<close> whose blocks all pass their
  self-check.\<close>

definition sampleStore :: "string blockData Blockchain" where
  "sampleStore =
     constructor sampleDigest sampleStringify alwaysValid sampleNewBlock 1700000000123"

text \<open>Two appends for that store, each with its clock reading.\<close>

definition sampleDrafts :: "(string blockData Block \<times> nat) list" where
  "sampleDrafts =
     [(sampleNewBlock (OwnerStar ''alice'' ''Polaris''), 1700000100456),
      (sampleNewBlock (OwnerStar ''bob'' ''Vega''), 1700000200789)]"

text \<open>
  A store that has been tampered with after the fact: the bodies of blocks 0 and 2 were
  changed, and block 1 no longer points at block 0. The self-check stand-in
  \<open>untampered\<close> fails on a changed body; \<open>untamperedOrLast\<close> differs from it
  on the last block only.
\<close>

definition tamperedStore :: "string Blockchain" where
  "tamperedStore =
     \<lparr>chain =
        [\<lparr>hash = JStr ''h0'', height = 0, body = ''tampered'', time = JStr ''1700000000'',
          previousBlockHash = JNull\<rparr>,
         \<lparr>hash = JStr ''h1'', height = 1, body = ''star one'', time = JStr ''1700000100'',
          previousBlockHash = JStr ''hX''\<rparr>,
         \<lparr>hash = JStr ''h2'', height = 2, body = ''tampered'', time = JStr ''1700000200'',
          previousBlockHash = JStr ''h1''\<rparr>],
      height = 2\<rparr>"

definition untampered :: "string Block \<Rightarrow> bool" where
  "untampered b = (body b \<noteq> ''tampered'')"

definition untamperedOrLast :: "string Block \<Rightarrow> bool" where
  "untamperedOrLast b = (body b \<noteq> ''tampered'' \<or> Block.height b = 2)"

text \<open>
  A store of four blocks whose first block carries an owner field, and the same store with
  the body of block 2 made undecodable.
\<close>

definition starStore :: "string blockData Blockchain" where
  "starStore =
     \<lparr>chain =
        [\<lparr>hash = JStr ''h0'', height = 0, body = OwnerStar ''alice'' ''Sun'',
          time = JStr ''1700000000'', previousBlockHash = JNull\<rparr>,
         \<lparr>hash = JStr ''h1'', height = 1, body = OwnerStar ''alice'' ''Polaris'',
          time = JStr ''1700000100'', previousBlockHash = JStr ''h0''\<rparr>,
         \<lparr>hash = JStr ''h2'', height = 2, body = OwnerStar ''bob'' ''Vega'',
          time = JStr ''1700000200'', previousBlockHash = JStr ''h1''\<rparr>,
         \<lparr>hash = JStr ''h3'', height = 3, body = OwnerStar ''alice'' ''Sirius'',
          time = JStr ''1700000300'', previousBlockHash = JStr ''h2''\<rparr>],
      height = 3\<rparr>"

definition garbledStore :: "string blockData Blockchain" where
  "garbledStore =
     starStore\<lparr>chain := (chain starStore)[2 := (chain starStore ! 2)\<lparr>body := Data ''garbled''\<rparr>]\<rparr>"

text \<open>A block that comes to \<open>_addBlock\<close> with a hash already in its \<open>hash\<close>
  field, and one that comes with other values in the fields \<open>_addBlock\<close> overwrites.\<close>

definition staleDraft :: "string blockData Block" where
  "staleDraft = (sampleNewBlock (OwnerStar ''alice'' ''Polaris''))\<lparr>hash := JStr ''stale''\<rparr>"

definition usedDraft :: "string blockData Block" where
  "usedDraft = (sampleNewBlock (OwnerStar ''alice'' ''Polaris''))
                 \<lparr>Block.height := 7, time := JNum 5, previousBlockHash := JStr ''elsewhere''\<rparr>"

section \<open>Properties\<close>

subsection \<open>Rule sets for running the definitions on concrete inputs\<close>

lemmas run_simps =
  addBlock_def constructor_def initializeChain_def validateChain_def validateChain_loop.simps
  timeStamp_def slice_def toString.simps digitChar_def Let_def
  sampleStore_def sampleNewBlock_def sampleStringify_def sampleDigest_def
  alwaysValid_def neverValid_def

lemmas parse_simps =
  currentTime_def messageTime_def parseInt_def isWhiteSpace_def digitValue_def isRadixDigit_def
  radixValue_def timeStamp_def slice_def toString.simps digitChar_def Let_def

subsection \<open>validateChain\<close>

lemma validateChain_loop_step:
  "i < length chn - 1 \<Longrightarrow>
   validateChain_loop validate chn i errorLog =
     validateChain_loop validate chn (i + 1) (errorLog @ errorsAt validate chn i)"
  by (subst validateChain_loop.simps) (auto simp: errorsAt_def Let_def)

lemma validateChain_loop_stop:
  "\<not> i < length chn - 1 \<Longrightarrow> validateChain_loop validate chn i errorLog = errorLog"
  by (subst validateChain_loop.simps) auto

lemma validateChain_loop_eq:
  "validateChain_loop validate chn i errorLog =
     errorLog @ concat (map (errorsAt validate chn) [i ..< length chn - 1])"
proof (induction "length chn - 1 - i" arbitrary: i errorLog)
  case 0
  then have "\<not> i < length chn - 1" by simp
  then show ?case by (simp add: validateChain_loop_stop)
next
  case (Suc k)
  then have lt: "i < length chn - 1" and k: "k = length chn - 1 - (i + 1)" by simp_all
  have "[i ..< length chn - 1] = i # [i + 1 ..< length chn - 1]"
    using lt by (simp add: upt_conv_Cons)
  then show ?case
    using Suc.hyps(1)[OF k] by (simp add: validateChain_loop_step[OF lt])
qed

lemma errorsAt_cong:
  "validate' (chn ! i) = validate (chn ! i) \<Longrightarrow> errorsAt validate' chn i = errorsAt validate chn i"
  by (simp add: errorsAt_def)

lemma recordedErrors_cong:
  assumes "\<forall>i. i + 1 < length chn \<longrightarrow> validate' (chn ! i) = validate (chn ! i)"
  shows "recordedErrors validate' chn = recordedErrors validate chn"
proof -
  have "map (errorsAt validate' chn) [0 ..< length chn - 1] = map (errorsAt validate chn) [0 ..< length chn - 1]"
  proof (rule map_cong[OF refl])
    fix x assume "x \<in> set [0 ..< length chn - 1]"
    then have "x + 1 < length chn" by auto
    with assms have "validate' (chn ! x) = validate (chn ! x)" by blast
    then show "errorsAt validate' chn x = errorsAt validate chn x"
      by (rule errorsAt_cong)
  qed
  then show ?thesis unfolding recordedErrors_def by (rule arg_cong)
qed

lemma validateChain_recorded:
  "validateChain validate self =
     (if recordedErrors validate (chain self) = [] then Valid
      else Invalid (length (recordedErrors validate (chain self))) (recordedErrors validate (chain self)))"
  by (simp add: validateChain_def validateChain_loop_eq recordedErrors_def Let_def)

text \<open>
  C2. \<open>validateChain\<close> visits the indices \<open>0\<close> to \<open>length - 2\<close>, records
  \<open>i\<close> once when the self-check of block \<open>i\<close> fails and once more when its hash
  differs from the previousBlockHash of block \<open>i + 1\<close>; it answers \<open>Valid\<close> exactly
  when nothing was recorded, and otherwise \<open>Invalid\<close> with the count and the whole list,
  duplicates included. The self-check of the last block plays no part: two self-checks
  that agree on all blocks but the last give the same answer.
\<close>

theorem validateChain_spec:
  "validateChain validate self =
     (if recordedErrors validate (chain self) = [] then Valid
      else Invalid (length (recordedErrors validate (chain self))) (recordedErrors validate (chain self)))
   \<and> (\<forall>validate'. (\<forall>i. i + 1 < length (chain self) \<longrightarrow> validate' (chain self ! i) = validate (chain self ! i))
        \<longrightarrow> validateChain validate' self = validateChain validate self)"
proof (intro conjI allI impI)
  show "validateChain validate self =
     (if recordedErrors validate (chain self) = [] then Valid
      else Invalid (length (recordedErrors validate (chain self))) (recordedErrors validate (chain self)))"
    by (rule validateChain_recorded)
next
  fix validate' :: "'a Block \<Rightarrow> bool"
  assume "\<forall>i. i + 1 < length (chain self) \<longrightarrow> validate' (chain self ! i) = validate (chain self ! i)"
  then have "recordedErrors validate' (chain self) = recordedErrors validate (chain self)"
    by (rule recordedErrors_cong)
  then show "validateChain validate' self = validateChain validate self"
    by (simp add: validateChain_recorded)
qed

text \<open>
  The tampered store: index 0 is recorded twice, the changed last block is not reported,
  and a self-check that accepts the last block gives the same report.
\<close>

theorem validateChain_spec_witness:
  "validateChain untampered tamperedStore = Invalid 2 [0, 0]
   \<and> validateChain untamperedOrLast tamperedStore = validateChain untampered tamperedStore"
proof -
  have agree: "\<forall>i. i + 1 < length (chain tamperedStore) \<longrightarrow>
      untamperedOrLast (chain tamperedStore ! i) = untampered (chain tamperedStore ! i)"
    by (auto simp: tamperedStore_def untampered_def untamperedOrLast_def nth_Cons' less_Suc_eq)
  have rec: "recordedErrors untampered (chain tamperedStore) = [0, 0]"
    by (simp add: recordedErrors_def errorsAt_def tamperedStore_def untampered_def)
  from validateChain_spec[of untampered tamperedStore] agree rec
  show ?thesis by simp
qed

subsection \<open>What an append does to the store\<close>

lemma addBlock_chain:
  "chain (snd (addBlock SHA256 stringify validate self block now)) =
     chain self @ [appended SHA256 stringify validate self block now]"
  by (simp add: appended_def addBlock_def Let_def)

lemma addBlock_height:
  "Blockchain.height (snd (addBlock SHA256 stringify validate self block now)) =
     int (length (chain self))"
  by (simp add: addBlock_def Let_def)

lemma addBlock_result:
  "fst (addBlock SHA256 stringify validate self block now) =
     (if validateChain validate (snd (addBlock SHA256 stringify validate self block now)) = Valid
      then Resolved (appended SHA256 stringify validate self block now)
      else Rejected ChainIntegrityError)"
  by (simp add: appended_def addBlock_def Let_def)

lemma appended_height:
  "Block.height (appended SHA256 stringify validate self block now) = length (chain self)"
  by (simp add: appended_def addBlock_def Let_def)

lemma appended_time:
  "time (appended SHA256 stringify validate self block now) = JStr (timeStamp now)"
  by (simp add: appended_def addBlock_def Let_def)

lemma appended_body:
  "body (appended SHA256 stringify validate self block now) = body block"
  by (simp add: appended_def addBlock_def Let_def)

lemma appended_previousBlockHash:
  "previousBlockHash (appended SHA256 stringify validate self block now) =
     (if chain self = [] then previousBlockHash block else hash (last (chain self)))"
  by (simp add: appended_def addBlock_def Let_def last_conv_nth)

lemma appended_hash:
  "hash (appended SHA256 stringify validate self block now) =
     JStr (SHA256 (stringify ((appended SHA256 stringify validate self block now)\<lparr>hash := hash block\<rparr>)))"
  by (simp add: appended_def addBlock_def Let_def)

text \<open>
  C3. When the validation that follows the push does not answer \<open>Valid\<close>,
  \<open>_addBlock\<close> rejects with the chain-integrity error, and yet the chain is the old
  chain followed by the new block (carrying the body it was given) and the height is that
  of the longer chain.
\<close>

theorem addBlock_no_rollback:
  assumes "validateChain validate (snd (addBlock SHA256 stringify validate self block now)) \<noteq> Valid"
  shows "fst (addBlock SHA256 stringify validate self block now) = Rejected ChainIntegrityError
       \<and> chain (snd (addBlock SHA256 stringify validate self block now))
           = chain self @ [appended SHA256 stringify validate self block now]
       \<and> body (appended SHA256 stringify validate self block now) = body block
       \<and> Blockchain.height (snd (addBlock SHA256 stringify validate self block now))
           = int (length (chain self @ [appended SHA256 stringify validate self block now])) - 1"
  using assms by (simp add: addBlock_result addBlock_chain addBlock_height appended_body)

text \<open>
  An append to the sample store while every self-check fails: rejected, and the store
  holds two blocks at height 1.
\<close>

theorem addBlock_no_rollback_witness:
  "validateChain neverValid
     (snd (addBlock sampleDigest sampleStringify neverValid sampleStore
            (sampleNewBlock (OwnerStar ''alice'' ''Polaris'')) 1700000100456)) \<noteq> Valid
   \<and> fst (addBlock sampleDigest sampleStringify neverValid sampleStore
            (sampleNewBlock (OwnerStar ''alice'' ''Polaris'')) 1700000100456)
       = Rejected ChainIntegrityError
   \<and> length (chain (snd (addBlock sampleDigest sampleStringify neverValid sampleStore
            (sampleNewBlock (OwnerStar ''alice'' ''Polaris'')) 1700000100456))) = 2
   \<and> Blockchain.height (snd (addBlock sampleDigest sampleStringify neverValid sampleStore
            (sampleNewBlock (OwnerStar ''alice'' ''Polaris'')) 1700000100456)) = 1"
proof -
  have invalid: "validateChain neverValid
     (snd (addBlock sampleDigest sampleStringify neverValid sampleStore
            (sampleNewBlock (OwnerStar ''alice'' ''Polaris'')) 1700000100456)) \<noteq> Valid"
    by (simp add: run_simps)
  have one: "length (chain sampleStore) = 1" by (simp add: run_simps)
  from addBlock_no_rollback[OF invalid] invalid one show ?thesis by simp
qed

subsection \<open>Runs of appends\<close>

lemma links_snoc:
  assumes old: "\<forall>i. i + 1 < length xs \<longrightarrow> hash (xs ! i) = previousBlockHash (xs ! (i + 1))"
    and new: "xs \<noteq> [] \<longrightarrow> previousBlockHash a = hash (last xs)"
  shows "\<forall>i. i + 1 < length (xs @ [a]) \<longrightarrow>
           hash ((xs @ [a]) ! i) = previousBlockHash ((xs @ [a]) ! (i + 1))"
proof (intro allI impI)
  fix i assume i: "i + 1 < length (xs @ [a])"
  show "hash ((xs @ [a]) ! i) = previousBlockHash ((xs @ [a]) ! (i + 1))"
  proof (cases "i + 1 < length xs")
    case True
    with old show ?thesis by (simp add: nth_append)
  next
    case False
    with i have eq: "i + 1 = length xs" by simp
    then have ne: "xs \<noteq> []" by auto
    from eq have "i = length xs - 1" by simp
    then have "xs ! i = last xs" using ne by (simp add: last_conv_nth)
    with eq new ne show ?thesis by (simp add: nth_append)
  qed
qed

lemma heights_snoc:
  assumes "\<forall>i<length xs. Block.height (xs ! i) = i" and "Block.height a = length xs"
  shows "\<forall>i<length (xs @ [a]). Block.height ((xs @ [a]) ! i) = i"
  using assms by (simp add: nth_append less_Suc_eq)

lemma appendAll_invariant:
  assumes "appendAll SHA256 stringify validate self0 drafts = Some self"
    and "\<forall>i. i + 1 < length (chain self0) \<longrightarrow>
           hash (chain self0 ! i) = previousBlockHash (chain self0 ! (i + 1))"
    and "\<forall>i<length (chain self0). Block.height (chain self0 ! i) = i"
    and "Blockchain.height self0 = int (length (chain self0)) - 1"
  shows "length (chain self) = length (chain self0) + length drafts
       \<and> Blockchain.height self = int (length (chain self)) - 1
       \<and> (\<forall>i. i + 1 < length (chain self) \<longrightarrow>
            hash (chain self ! i) = previousBlockHash (chain self ! (i + 1)))
       \<and> (\<forall>i<length (chain self). Block.height (chain self ! i) = i)"
  using assms
proof (induction drafts arbitrary: self0)
  case Nil
  then show ?case by simp
next
  case (Cons d drafts)
  obtain block now where d: "d = (block, now)" by (cases d)
  let ?r = "addBlock SHA256 stringify validate self0 block now"
  let ?a = "appended SHA256 stringify validate self0 block now"
  from Cons.prems(1) d have run: "appendAll SHA256 stringify validate (snd ?r) drafts = Some self"
    by (cases ?r) (auto split: promise.splits)
  have ch: "chain (snd ?r) = chain self0 @ [?a]" by (rule addBlock_chain)
  have l: "\<forall>i. i + 1 < length (chain (snd ?r)) \<longrightarrow>
             hash (chain (snd ?r) ! i) = previousBlockHash (chain (snd ?r) ! (i + 1))"
    unfolding ch by (rule links_snoc[OF Cons.prems(2)]) (simp add: appended_previousBlockHash)
  have h: "\<forall>i<length (chain (snd ?r)). Block.height (chain (snd ?r) ! i) = i"
    unfolding ch by (rule heights_snoc[OF Cons.prems(3)]) (simp add: appended_height)
  have g: "Blockchain.height (snd ?r) = int (length (chain (snd ?r))) - 1"
    by (simp add: addBlock_height ch)
  from Cons.IH[OF run l h g] show ?case by (simp add: ch)
qed

lemma constructor_chain:
  "chain (constructor SHA256 stringify validate newBlock now) =
     [appended SHA256 stringify validate \<lparr>chain = [], height = - 1\<rparr> (newBlock (Data ''Genesis Block'')) now]"
  by (simp add: constructor_def initializeChain_def addBlock_chain)

lemma constructor_height:
  "Blockchain.height (constructor SHA256 stringify validate newBlock now) = 0"
  by (simp add: constructor_def initializeChain_def addBlock_height)

text \<open>
  C1. After any run of successful appends to a freshly constructed store (whose only
  block is the Genesis Block at index 0), the height equals the number of appends, the
  chain is one longer, every block's hash is the previousBlockHash of its successor, and
  the height field of the block at index \<open>i\<close> is \<open>i\<close>.
\<close>

theorem sequential_appends:
  assumes "appendAll SHA256 stringify validate
             (constructor SHA256 stringify validate newBlock now0) drafts = Some self"
  shows "Blockchain.height self = int (length drafts)
       \<and> length (chain self) = length drafts + 1
       \<and> (\<forall>i. i + 1 < length (chain self) \<longrightarrow>
            hash (chain self ! i) = previousBlockHash (chain self ! (i + 1)))
       \<and> (\<forall>i<length (chain self). Block.height (chain self ! i) = i)"
proof -
  let ?s0 = "constructor SHA256 stringify validate newBlock now0"
  have "\<forall>i. i + 1 < length (chain ?s0) \<longrightarrow>
          hash (chain ?s0 ! i) = previousBlockHash (chain ?s0 ! (i + 1))"
    by (simp add: constructor_chain)
  moreover have "\<forall>i<length (chain ?s0). Block.height (chain ?s0 ! i) = i"
    by (simp add: constructor_chain appended_height)
  moreover have "Blockchain.height ?s0 = int (length (chain ?s0)) - 1"
    by (simp add: constructor_chain constructor_height)
  ultimately have inv:
    "length (chain self) = length (chain ?s0) + length drafts
       \<and> Blockchain.height self = int (length (chain self)) - 1
       \<and> (\<forall>i. i + 1 < length (chain self) \<longrightarrow>
            hash (chain self ! i) = previousBlockHash (chain self ! (i + 1)))
       \<and> (\<forall>i<length (chain self). Block.height (chain self ! i) = i)"
    using appendAll_invariant[OF assms] by blast
  then show ?thesis by (simp add: constructor_chain)
qed

text \<open>
  Two appends to the sample store: both resolve, and the store has height 2 and three
  linked, numbered blocks.
\<close>

theorem sequential_appends_witness:
  "\<exists>self. appendAll sampleDigest sampleStringify alwaysValid sampleStore sampleDrafts = Some self
      \<and> Blockchain.height self = 2 \<and> length (chain self) = 3
      \<and> hash (chain self ! 0) = previousBlockHash (chain self ! 1)
      \<and> hash (chain self ! 1) = previousBlockHash (chain self ! 2)
      \<and> Block.height (chain self ! 0) = 0
      \<and> Block.height (chain self ! 1) = 1
      \<and> Block.height (chain self ! 2) = 2"
proof -
  have "appendAll sampleDigest sampleStringify alwaysValid sampleStore sampleDrafts \<noteq> None"
    by (simp add: sampleDrafts_def run_simps)
  then obtain self where
    run: "appendAll sampleDigest sampleStringify alwaysValid
            (constructor sampleDigest sampleStringify alwaysValid sampleNewBlock 1700000000123)
            sampleDrafts = Some self"
    by (auto simp: sampleStore_def)
  have len: "length sampleDrafts = 2" by (simp add: sampleDrafts_def)
  from sequential_appends[OF run] len
  have "Blockchain.height self = 2" and l: "length (chain self) = 3"
    and links: "\<forall>i. i + 1 < length (chain self) \<longrightarrow>
                  hash (chain self ! i) = previousBlockHash (chain self ! (i + 1))"
    and heights: "\<forall>i<length (chain self). Block.height (chain self ! i) = i"
    by simp_all
  moreover from links[rule_format, of 0] l
  have "hash (chain self ! 0) = previousBlockHash (chain self ! 1)" by simp
  moreover from links[rule_format, of 1] l
  have "hash (chain self ! 1) = previousBlockHash (chain self ! 2)"
    by (simp add: numeral_2_eq_2)
  moreover from heights l have "Block.height (chain self ! 0) = 0"
    and "Block.height (chain self ! 1) = 1" and "Block.height (chain self ! 2) = 2"
    by simp_all
  ultimately show ?thesis using run by (auto simp: sampleStore_def)
qed

subsection \<open>The hash of a stored block\<close>

text \<open>
  C4 as stated fails: two blocks that are stored with the same height, time,
  previousBlockHash and body receive different hashes, because one of them came to
  \<open>_addBlock\<close> with a value already in its \<open>hash\<close> field.
\<close>

theorem stored_hash_counterexample:
  "Block.height (appended sampleDigest sampleStringify alwaysValid sampleStore staleDraft 1700000100456)
     = Block.height (appended sampleDigest sampleStringify alwaysValid sampleStore
         (sampleNewBlock (OwnerStar ''alice'' ''Polaris'')) 1700000100456)
   \<and> time (appended sampleDigest sampleStringify alwaysValid sampleStore staleDraft 1700000100456)
     = time (appended sampleDigest sampleStringify alwaysValid sampleStore
         (sampleNewBlock (OwnerStar ''alice'' ''Polaris'')) 1700000100456)
   \<and> previousBlockHash (appended sampleDigest sampleStringify alwaysValid sampleStore staleDraft 1700000100456)
     = previousBlockHash (appended sampleDigest sampleStringify alwaysValid sampleStore
         (sampleNewBlock (OwnerStar ''alice'' ''Polaris'')) 1700000100456)
   \<and> body (appended sampleDigest sampleStringify alwaysValid sampleStore staleDraft 1700000100456)
     = body (appended sampleDigest sampleStringify alwaysValid sampleStore
         (sampleNewBlock (OwnerStar ''alice'' ''Polaris'')) 1700000100456)
   \<and> hash (appended sampleDigest sampleStringify alwaysValid sampleStore staleDraft 1700000100456)
     \<noteq> hash (appended sampleDigest sampleStringify alwaysValid sampleStore
         (sampleNewBlock (OwnerStar ''alice'' ''Polaris'')) 1700000100456)"
  by (simp add: appended_def staleDraft_def run_simps)

text \<open>
  C4, amended. The stored hash is the digest of the serialisation of the whole block as it
  stands on line 71: the new height, time and previousBlockHash, the body, and the
  \<open>hash\<close> field still holding the value the block came with. Hence two stored blocks
  that came with the same value in \<open>hash\<close> and agree on height, time,
  previousBlockHash and body have the same hash.
\<close>

theorem stored_hash_of_whole_block:
  "hash (appended SHA256 stringify validate self block now)
     = JStr (SHA256 (stringify ((appended SHA256 stringify validate self block now)\<lparr>hash := hash block\<rparr>)))
   \<and> (\<forall>self' block' now'.
         hash block' = hash block
         \<and> Block.height (appended SHA256 stringify validate self' block' now')
             = Block.height (appended SHA256 stringify validate self block now)
         \<and> time (appended SHA256 stringify validate self' block' now')
             = time (appended SHA256 stringify validate self block now)
         \<and> previousBlockHash (appended SHA256 stringify validate self' block' now')
             = previousBlockHash (appended SHA256 stringify validate self block now)
         \<and> body (appended SHA256 stringify validate self' block' now')
             = body (appended SHA256 stringify validate self block now)
         \<longrightarrow> hash (appended SHA256 stringify validate self' block' now')
             = hash (appended SHA256 stringify validate self block now))"
proof (intro conjI allI impI)
  show "hash (appended SHA256 stringify validate self block now)
     = JStr (SHA256 (stringify ((appended SHA256 stringify validate self block now)\<lparr>hash := hash block\<rparr>)))"
    by (rule appended_hash)
next
  fix self' :: "'a Blockchain" and block' :: "'a Block" and now' :: nat
  let ?a = "appended SHA256 stringify validate self block now"
  let ?a' = "appended SHA256 stringify validate self' block' now'"
  assume h: "hash block' = hash block \<and> Block.height ?a' = Block.height ?a \<and> time ?a' = time ?a
     \<and> previousBlockHash ?a' = previousBlockHash ?a \<and> body ?a' = body ?a"
  then have "?a'\<lparr>hash := hash block'\<rparr> = ?a\<lparr>hash := hash block\<rparr>"
    by (intro Block.equality) simp_all
  then show "hash ?a' = hash ?a"
    using appended_hash[of SHA256 stringify validate self' block' now']
          appended_hash[of SHA256 stringify validate self block now]
    by simp
qed

text \<open>
  A fresh block appended to the sample store, and a second one that came with other
  values in the overwritten fields: the hashed text has \<open>hash\<close> at \<open>null\<close>, and the
  two hashes agree.
\<close>

theorem stored_hash_of_whole_block_witness:
  "hash (appended sampleDigest sampleStringify alwaysValid sampleStore
           (sampleNewBlock (OwnerStar ''alice'' ''Polaris'')) 1700000100456)
     = JStr (sampleDigest (sampleStringify
         \<lparr>hash = JNull, height = 1, body = OwnerStar ''alice'' ''Polaris'',
          time = JStr ''1700000100'', previousBlockHash = hash (last (chain sampleStore))\<rparr>))
   \<and> hash (appended sampleDigest sampleStringify alwaysValid sampleStore usedDraft 1700000100999)
     = hash (appended sampleDigest sampleStringify alwaysValid sampleStore
           (sampleNewBlock (OwnerStar ''alice'' ''Polaris'')) 1700000100456)"
proof -
  let ?a = "appended sampleDigest sampleStringify alwaysValid sampleStore
              (sampleNewBlock (OwnerStar ''alice'' ''Polaris'')) 1700000100456"
  let ?a' = "appended sampleDigest sampleStringify alwaysValid sampleStore usedDraft 1700000100999"
  have same: "hash usedDraft = hash (sampleNewBlock (OwnerStar ''alice'' ''Polaris''))
      \<and> Block.height ?a' = Block.height ?a \<and> time ?a' = time ?a
      \<and> previousBlockHash ?a' = previousBlockHash ?a \<and> body ?a' = body ?a"
    by (simp add: appended_def usedDraft_def run_simps)
  have whole: "?a\<lparr>hash := hash (sampleNewBlock (OwnerStar ''alice'' ''Polaris''))\<rparr>
      = \<lparr>hash = JNull, height = 1, body = OwnerStar ''alice'' ''Polaris'',
          time = JStr ''1700000100'', previousBlockHash = hash (last (chain sampleStore))\<rparr>"
    by (simp add: appended_def run_simps)
  from stored_hash_of_whole_block[of sampleDigest sampleStringify alwaysValid sampleStore
         "sampleNewBlock (OwnerStar ''alice'' ''Polaris'')" 1700000100456]
  have "hash ?a = JStr (sampleDigest (sampleStringify
            (?a\<lparr>hash := hash (sampleNewBlock (OwnerStar ''alice'' ''Polaris''))\<rparr>)))"
    and "hash usedDraft = hash (sampleNewBlock (OwnerStar ''alice'' ''Polaris''))
      \<and> Block.height ?a' = Block.height ?a \<and> time ?a' = time ?a
      \<and> previousBlockHash ?a' = previousBlockHash ?a \<and> body ?a' = body ?a
      \<longrightarrow> hash ?a' = hash ?a"
    by blast+
  with same whole show ?thesis by simp
qed

subsection \<open>Decimal strings and the stored time\<close>

lemma toString_step:
  "10 \<le> n \<Longrightarrow> toString n = toString (n div 10) @ [digitChar (n mod 10)]"
  by (subst toString.simps) simp

lemma toString_thousands:
  assumes "1000 \<le> n"
  shows "toString n = toString (n div 1000) @
           [digitChar (n div 100 mod 10), digitChar (n div 10 mod 10), digitChar (n mod 10)]"
proof -
  have a: "10 \<le> n" and b: "10 \<le> n div 10" and c: "10 \<le> n div 100"
    using assms by simp_all
  have d: "n div 10 div 10 = n div 100" and e: "n div 100 div 10 = n div 1000"
    by (simp_all add: div_mult2_eq[symmetric])
  have "toString n = toString (n div 10) @ [digitChar (n mod 10)]"
    by (rule toString_step[OF a])
  also have "toString (n div 10) = toString (n div 100) @ [digitChar (n div 10 mod 10)]"
    using toString_step[OF b] by (simp only: d)
  also have "toString (n div 100) = toString (n div 1000) @ [digitChar (n div 100 mod 10)]"
    using toString_step[OF c] by (simp only: e)
  finally show ?thesis by simp
qed

lemma slice_drop_last3: "slice s 0 (- 3) = take (length s - 3) s"
  by (simp add: slice_def Let_def nat_diff_distrib' max_def)

lemma timeStamp_seconds: "1000 \<le> now \<Longrightarrow> timeStamp now = toString (now div 1000)"
  by (simp add: timeStamp_def slice_drop_last3 toString_thousands)

text \<open>
  C9 as stated fails: the stored time is a string of digits, not a number.
\<close>

theorem stored_time_counterexample:
  "time (appended sampleDigest sampleStringify alwaysValid sampleStore
           (sampleNewBlock (OwnerStar ''alice'' ''Polaris'')) 1700000100456) = JStr ''1700000100''
   \<and> time (appended sampleDigest sampleStringify alwaysValid sampleStore
           (sampleNewBlock (OwnerStar ''alice'' ''Polaris'')) 1700000100456) \<noteq> JNum 1700000100"
  by (simp add: appended_def run_simps)

text \<open>
  C9, amended. For a clock reading of at least one second past the epoch, the stored time
  is the string of decimal digits of the reading in whole seconds, taken when the block is
  appended.
\<close>

theorem stored_time_is_seconds_string:
  assumes "1000 \<le> now"
  shows "time (appended SHA256 stringify validate self block now) = JStr (toString (now div 1000))"
  using assms by (simp add: appended_time timeStamp_seconds)

text \<open>
  A block appended at reading 1700000200789 carries the time "1700000200".
\<close>

theorem stored_time_is_seconds_string_witness:
  "(1000 :: nat) \<le> 1700000200789
   \<and> time (appended sampleDigest sampleStringify alwaysValid sampleStore
           (sampleNewBlock (OwnerStar ''bob'' ''Vega'')) 1700000200789) = JStr ''1700000200''"
proof -
  have h: "(1000 :: nat) \<le> 1700000200789" by simp
  have "toString (1700000200789 div 1000) = ''1700000200''"
    by (simp add: toString.simps digitChar_def)
  with stored_time_is_seconds_string[OF h, of sampleDigest sampleStringify alwaysValid sampleStore
         "sampleNewBlock (OwnerStar ''bob'' ''Vega'')"] h
  show ?thesis by simp
qed

subsection \<open>Reading a number back\<close>

lemma digit_cases:
  "d < 10 \<Longrightarrow> d = 0 \<or> d = 1 \<or> d = 2 \<or> d = 3 \<or> d = 4 \<or> d = 5 \<or> d = 6 \<or> d = 7 \<or> d = 8 \<or> d = (9::nat)"
  by arith

lemma digitValue_digitChar: "d < 10 \<Longrightarrow> digitValue (digitChar d) = Some d"
  by (drule digit_cases) (auto simp: digitValue_def digitChar_def)

lemma digitChar_plain:
  "d < 10 \<Longrightarrow> \<not> isWhiteSpace (digitChar d) \<and> digitChar d \<noteq> CHR ''-'' \<and> digitChar d \<noteq> CHR ''+''
     \<and> digitChar d \<noteq> CHR ''x'' \<and> digitChar d \<noteq> CHR ''X'' \<and> digitChar d \<noteq> CHR '':''"
  by (drule digit_cases) (auto simp: isWhiteSpace_def digitChar_def)

lemma toString_chars: "c \<in> set (toString n) \<Longrightarrow> \<exists>d<10. c = digitChar d"
proof (induction n arbitrary: c rule: toString.induct)
  case (1 n)
  show ?case
  proof (cases "n < 10")
    case True
    with "1.prems" show ?thesis by (subst (asm) toString.simps) auto
  next
    case False
    with "1.prems" have "c \<in> set (toString (n div 10)) \<or> c = digitChar (n mod 10)"
      by (subst (asm) toString.simps) auto
    then show ?thesis
    proof
      assume "c \<in> set (toString (n div 10))"
      with False "1.IH" show ?thesis by blast
    next
      assume "c = digitChar (n mod 10)"
      moreover have "n mod 10 < 10" by simp
      ultimately show ?thesis by blast
    qed
  qed
qed

lemma toString_nonempty: "toString n \<noteq> []"
  by (subst toString.simps) simp

lemma radixValue_snoc:
  "radixValue R (Z @ [c]) = radixValue R Z * R + (case digitValue c of None \<Rightarrow> 0 | Some d \<Rightarrow> d)"
  by (simp add: radixValue_def)

lemma radixValue_toString: "radixValue 10 (toString n) = n"
proof (induction n rule: toString.induct)
  case (1 n)
  show ?case
  proof (cases "n < 10")
    case True
    then show ?thesis
      by (subst toString.simps) (simp add: radixValue_def digitValue_digitChar)
  next
    case False
    then have "toString n = toString (n div 10) @ [digitChar (n mod 10)]"
      by (simp add: toString_step)
    with False "1.IH" show ?thesis
      by (simp add: radixValue_snoc digitValue_digitChar)
  qed
qed

lemma parseInt_toString: "parseInt (toString n) = Some (int n)"
proof -
  let ?S = "toString n"
  have ne: "?S \<noteq> []" by (rule toString_nonempty)
  have plain: "\<And>c. c \<in> set ?S \<Longrightarrow> \<not> isWhiteSpace c \<and> c \<noteq> CHR ''-'' \<and> c \<noteq> CHR ''+''
                 \<and> c \<noteq> CHR ''x'' \<and> c \<noteq> CHR ''X'' \<and> isRadixDigit 10 c"
    using toString_chars digitChar_plain digitValue_digitChar
    by (fastforce simp: isRadixDigit_def)
  have hd: "hd ?S \<in> set ?S" using ne by simp
  have ws: "dropWhile isWhiteSpace ?S = ?S"
    using plain[OF hd] ne by (cases ?S) auto
  have nohex: "\<not> (2 \<le> length ?S \<and> (take 2 ?S = ''0x'' \<or> take 2 ?S = ''0X''))"
  proof
    assume h: "2 \<le> length ?S \<and> (take 2 ?S = ''0x'' \<or> take 2 ?S = ''0X'')"
    then have "?S ! 1 \<in> set ?S" by simp
    moreover from h have "?S ! 1 = CHR ''x'' \<or> ?S ! 1 = CHR ''X''"
      by (metis One_nat_def lessI nth_Cons_0 nth_Cons_Suc nth_take numeral_2_eq_2)
    ultimately show False using plain by blast
  qed
  have all: "takeWhile (isRadixDigit 10) ?S = ?S"
    using plain by simp
  have nosign: "(?S \<noteq> [] \<and> hd ?S = CHR ''-'') = False"
    "(?S \<noteq> [] \<and> (hd ?S = CHR ''+'' \<or> hd ?S = CHR ''-'')) = False"
    using plain[OF hd] by simp_all
  have nohex': "(2 \<le> length ?S \<and> (take 2 ?S = ''0x'' \<or> take 2 ?S = ''0X'')) = False"
    using nohex by simp
  show ?thesis
    unfolding parseInt_def Let_def ws nosign nohex' if_False all
    using ne by (simp add: radixValue_toString)
qed

lemma currentTime_seconds: "1000 \<le> now \<Longrightarrow> currentTime now = Some (int (now div 1000))"
  by (simp add: currentTime_def timeStamp_seconds parseInt_toString)

lemma split_field:
  "sep \<notin> set field \<Longrightarrow> split sep (field @ sep # rest) = field # split sep rest"
  by (induction field) (auto split: list.splits)

lemma toString_no_colon: "CHR '':'' \<notin> set (toString n)"
proof
  assume "CHR '':'' \<in> set (toString n)"
  then obtain d where "d < 10" and "CHR '':'' = digitChar d"
    using toString_chars by blast
  then show False using digitChar_plain[of d] by simp
qed

text \<open>The message issued for an address without a colon carries, as its second field,
  the whole seconds of the clock reading at which it was issued.\<close>

lemma messageTime_issued:
  assumes "CHR '':'' \<notin> set address" and "1000 \<le> issued"
  shows "messageTime (requestMessageOwnershipVerification address issued)
           = Some (int (issued div 1000))"
proof -
  let ?t = "toString (issued div 1000)"
  have "split CHR '':'' (address @ CHR '':'' # (?t @ CHR '':'' # ''starRegistry''))
          = address # ?t # split CHR '':'' ''starRegistry''"
    by (simp only: split_field[OF assms(1)] split_field[OF toString_no_colon])
  then show ?thesis
    using assms(2)
    by (simp add: messageTime_def requestMessageOwnershipVerification_def timeStamp_seconds
          parseInt_toString)
qed

subsection \<open>submitStar\<close>

lemma submitStar_expired:
  "challengeExpired now message \<Longrightarrow>
   submitStar SHA256 stringify validate newBlock verify self address message signature star now now'
     = (Rejected ChallengeExpiredError, self)"
  by (simp add: submitStar_def challengeExpired_def)

lemma submitStar_fresh:
  "\<not> challengeExpired now message \<Longrightarrow>
   submitStar SHA256 stringify validate newBlock verify self address message signature star now now'
     = (case verify message address signature of
          Inl e \<Rightarrow> (Rejected (Thrown e), self)
        | Inr ok \<Rightarrow>
            if ok then addBlock SHA256 stringify validate self (newBlock (OwnerStar address star)) now'
            else (Rejected SignatureInvalidError, self))"
  by (simp add: submitStar_def challengeExpired_def split: sum.splits)

lemma challengeExpired_numbers:
  "currentTime now = Some c \<Longrightarrow> messageTime message = Some m \<Longrightarrow>
   challengeExpired now message = (300 \<le> c - m)"
  by (simp add: challengeExpired_def minusNum_def geNum_def)

lemma challengeExpired_NaN:
  "messageTime message = None \<Longrightarrow> \<not> challengeExpired now message"
  by (simp add: challengeExpired_def minusNum_def geNum_def split: option.splits)

lemma addBlock_not_expired:
  "fst (addBlock SHA256 stringify validate self block now) \<noteq> Rejected ChallengeExpiredError"
  by (simp add: addBlock_result)

text \<open>
  C5. When the current time and the timestamp in the message are both numbers,
  \<open>submitStar\<close> rejects with the challenge-expired error if their difference is 300
  or more, and otherwise goes on to the signature check: its result is then that of the
  lines from 140 on.
\<close>

theorem submitStar_freshness:
  assumes "currentTime now = Some c" and "messageTime message = Some m"
  shows "(300 \<le> c - m \<longrightarrow>
            submitStar SHA256 stringify validate newBlock verify self address message signature star now now'
              = (Rejected ChallengeExpiredError, self))
       \<and> (c - m < 300 \<longrightarrow>
            submitStar SHA256 stringify validate newBlock verify self address message signature star now now'
              = (case verify message address signature of
                   Inl e \<Rightarrow> (Rejected (Thrown e), self)
                 | Inr ok \<Rightarrow>
                     if ok then addBlock SHA256 stringify validate self (newBlock (OwnerStar address star)) now'
                     else (Rejected SignatureInvalidError, self)))"
  using challengeExpired_numbers[OF assms]
  by (auto simp: submitStar_expired submitStar_fresh)

text \<open>
  The boundary: at exactly 300 seconds the call is rejected as expired, at 299 seconds
  it reaches \<open>_addBlock\<close>.
\<close>

theorem submitStar_freshness_witness:
  "currentTime 1700000300000 = Some 1700000300
   \<and> currentTime 1700000299999 = Some 1700000299
   \<and> messageTime ''alice:1700000000:starRegistry'' = Some 1700000000
   \<and> submitStar sampleDigest sampleStringify alwaysValid sampleNewBlock acceptingVerify sampleStore
        ''alice'' ''alice:1700000000:starRegistry'' ''signature'' ''Polaris'' 1700000300000 1700000300002
       = (Rejected ChallengeExpiredError, sampleStore)
   \<and> submitStar sampleDigest sampleStringify alwaysValid sampleNewBlock acceptingVerify sampleStore
        ''alice'' ''alice:1700000000:starRegistry'' ''signature'' ''Polaris'' 1700000299999 1700000300001
       = addBlock sampleDigest sampleStringify alwaysValid sampleStore
           (sampleNewBlock (OwnerStar ''alice'' ''Polaris'')) 1700000300001"
proof -
  have c300: "currentTime 1700000300000 = Some 1700000300"
    and c299: "currentTime 1700000299999 = Some 1700000299"
    and m: "messageTime ''alice:1700000000:starRegistry'' = Some 1700000000"
    by (simp_all add: parse_simps)
  from submitStar_freshness[OF c300 m, of sampleDigest sampleStringify alwaysValid sampleNewBlock
         acceptingVerify sampleStore "''alice''" "''signature''" "''Polaris''" 1700000300002]
       submitStar_freshness[OF c299 m, of sampleDigest sampleStringify alwaysValid sampleNewBlock
         acceptingVerify sampleStore "''alice''" "''signature''" "''Polaris''" 1700000300001]
       c300 c299 m
  show ?thesis by (simp add: acceptingVerify_def)
qed

text \<open>
  C10. When the second field of the message does not parse to a number, the freshness
  test does not reject: the call goes straight to the signature check and never ends with
  the challenge-expired error.
\<close>

theorem submitStar_unparsable_timestamp:
  assumes "messageTime message = None"
  shows "submitStar SHA256 stringify validate newBlock verify self address message signature star now now'
           = (case verify message address signature of
                Inl e \<Rightarrow> (Rejected (Thrown e), self)
              | Inr ok \<Rightarrow>
                  if ok then addBlock SHA256 stringify validate self (newBlock (OwnerStar address star)) now'
                  else (Rejected SignatureInvalidError, self))
       \<and> fst (submitStar SHA256 stringify validate newBlock verify self address message signature star now now')
           \<noteq> Rejected ChallengeExpiredError"
proof -
  have fresh: "\<not> challengeExpired now message"
    using assms by (rule challengeExpired_NaN)
  show ?thesis
    by (simp add: submitStar_fresh[OF fresh] addBlock_not_expired split: sum.splits)
qed

text \<open>
  A message without a colon and a message whose second field is a word: the first call
  ends with the signature error, the second reaches \<open>_addBlock\<close>.
\<close>

theorem submitStar_unparsable_timestamp_witness:
  "messageTime ''alice'' = None
   \<and> messageTime ''alice:soon:starRegistry'' = None
   \<and> submitStar sampleDigest sampleStringify alwaysValid sampleNewBlock rejectingVerify sampleStore
        ''alice'' ''alice'' ''signature'' ''Polaris'' 1700000300000 1700000300002
       = (Rejected SignatureInvalidError, sampleStore)
   \<and> submitStar sampleDigest sampleStringify alwaysValid sampleNewBlock acceptingVerify sampleStore
        ''alice'' ''alice:soon:starRegistry'' ''signature'' ''Polaris'' 1700000300000 1700000300002
       = addBlock sampleDigest sampleStringify alwaysValid sampleStore
           (sampleNewBlock (OwnerStar ''alice'' ''Polaris'')) 1700000300002"
proof -
  have m1: "messageTime ''alice'' = None" and m2: "messageTime ''alice:soon:starRegistry'' = None"
    by (simp_all add: parse_simps)
  from submitStar_unparsable_timestamp[OF m1, of sampleDigest sampleStringify alwaysValid
         sampleNewBlock rejectingVerify sampleStore "''alice''" "''signature''" "''Polaris''"
         1700000300000 1700000300002]
       submitStar_unparsable_timestamp[OF m2, of sampleDigest sampleStringify alwaysValid
         sampleNewBlock acceptingVerify sampleStore "''alice''" "''signature''" "''Polaris''"
         1700000300000 1700000300002]
       m1 m2
  show ?thesis by (simp add: acceptingVerify_def rejectingVerify_def)
qed

text \<open>
  C6 as stated fails: with a challenge 300 seconds old and a signature check that
  answers false, the call rejects with the challenge-expired error, not with the
  signature error.
\<close>

theorem submitStar_bad_signature_counterexample:
  "rejectingVerify ''alice:1700000000:starRegistry'' ''alice'' ''signature'' = Inr False
   \<and> submitStar sampleDigest sampleStringify alwaysValid sampleNewBlock rejectingVerify sampleStore
        ''alice'' ''alice:1700000000:starRegistry'' ''signature'' ''Polaris'' 1700000300000 1700000300002
       = (Rejected ChallengeExpiredError, sampleStore)
   \<and> fst (submitStar sampleDigest sampleStringify alwaysValid sampleNewBlock rejectingVerify sampleStore
        ''alice'' ''alice:1700000000:starRegistry'' ''signature'' ''Polaris'' 1700000300000 1700000300002)
       \<noteq> Rejected SignatureInvalidError"
  by (simp add: submitStar_def rejectingVerify_def minusNum_def geNum_def parse_simps)

text \<open>
  C6, amended. When the freshness test of line 135 lets the call through and the signature
  check answers false, \<open>submitStar\<close> rejects with the signature error. When the
  freshness test rejects, the call ends with the challenge-expired error and the store
  unchanged for every signature check whatsoever, be it one that accepts, one that
  answers false or one that throws: the check is not consulted.
\<close>

theorem submitStar_bad_signature:
  "(\<not> challengeExpired now message \<and> verify message address signature = Inr False \<longrightarrow>
      submitStar SHA256 stringify validate newBlock verify self address message signature star now now'
        = (Rejected SignatureInvalidError, self))
   \<and> (challengeExpired now message \<longrightarrow>
        (\<forall>anyVerify.
           submitStar SHA256 stringify validate newBlock anyVerify self address message signature star now now'
             = (Rejected ChallengeExpiredError, self)))"
proof (intro conjI impI allI)
  assume "\<not> challengeExpired now message \<and> verify message address signature = Inr False"
  then show "submitStar SHA256 stringify validate newBlock verify self address message signature star now now'
               = (Rejected SignatureInvalidError, self)"
    by (simp add: submitStar_fresh)
next
  fix anyVerify :: "string \<Rightarrow> string \<Rightarrow> string \<Rightarrow> string + bool"
  assume "challengeExpired now message"
  then show "submitStar SHA256 stringify validate newBlock anyVerify self address message signature star now now'
               = (Rejected ChallengeExpiredError, self)"
    by (rule submitStar_expired)
qed

text \<open>
  A bad signature at 299 seconds ends with the signature error; at 300 seconds the call
  ends as expired with a signature check that answers false, with one that accepts and
  with one that throws.
\<close>

theorem submitStar_bad_signature_witness:
  "\<not> challengeExpired 1700000299999 ''alice:1700000000:starRegistry''
   \<and> rejectingVerify ''alice:1700000000:starRegistry'' ''alice'' ''signature'' = Inr False
   \<and> submitStar sampleDigest sampleStringify alwaysValid sampleNewBlock rejectingVerify sampleStore
        ''alice'' ''alice:1700000000:starRegistry'' ''signature'' ''Polaris'' 1700000299999 1700000300001
       = (Rejected SignatureInvalidError, sampleStore)
   \<and> challengeExpired 1700000300000 ''alice:1700000000:starRegistry''
   \<and> submitStar sampleDigest sampleStringify alwaysValid sampleNewBlock rejectingVerify sampleStore
        ''alice'' ''alice:1700000000:starRegistry'' ''signature'' ''Polaris'' 1700000300000 1700000300002
       = (Rejected ChallengeExpiredError, sampleStore)
   \<and> submitStar sampleDigest sampleStringify alwaysValid sampleNewBlock acceptingVerify sampleStore
        ''alice'' ''alice:1700000000:starRegistry'' ''signature'' ''Polaris'' 1700000300000 1700000300002
       = (Rejected ChallengeExpiredError, sampleStore)
   \<and> throwingVerify ''alice:1700000000:starRegistry'' ''alice'' ''signature''
       = Inl ''Invalid signature length''
   \<and> submitStar sampleDigest sampleStringify alwaysValid sampleNewBlock throwingVerify sampleStore
        ''alice'' ''alice:1700000000:starRegistry'' ''signature'' ''Polaris'' 1700000300000 1700000300002
       = (Rejected ChallengeExpiredError, sampleStore)"
proof -
  have v: "rejectingVerify ''alice:1700000000:starRegistry'' ''alice'' ''signature'' = Inr False"
    by (simp add: rejectingVerify_def)
  have t: "throwingVerify ''alice:1700000000:starRegistry'' ''alice'' ''signature''
             = Inl ''Invalid signature length''"
    by (simp add: throwingVerify_def)
  have fresh: "\<not> challengeExpired 1700000299999 ''alice:1700000000:starRegistry''"
    and stale: "challengeExpired 1700000300000 ''alice:1700000000:starRegistry''"
    by (simp_all add: challengeExpired_def minusNum_def geNum_def parse_simps)
  have bad: "submitStar sampleDigest sampleStringify alwaysValid sampleNewBlock rejectingVerify sampleStore
        ''alice'' ''alice:1700000000:starRegistry'' ''signature'' ''Polaris'' 1700000299999 1700000300001
       = (Rejected SignatureInvalidError, sampleStore)"
    using submitStar_bad_signature[where verify = rejectingVerify
         and message = "''alice:1700000000:starRegistry''" and address = "''alice''"
         and signature = "''signature''" and now = 1700000299999 and now' = 1700000300001
         and ?SHA256.0 = sampleDigest and stringify = sampleStringify and validate = alwaysValid
         and newBlock = sampleNewBlock and self = sampleStore and star = "''Polaris''"]
       v fresh
    by blast
  have expired: "\<forall>anyVerify.
        submitStar sampleDigest sampleStringify alwaysValid sampleNewBlock anyVerify sampleStore
          ''alice'' ''alice:1700000000:starRegistry'' ''signature'' ''Polaris'' 1700000300000 1700000300002
        = (Rejected ChallengeExpiredError, sampleStore)"
    using submitStar_bad_signature[where verify = rejectingVerify
         and message = "''alice:1700000000:starRegistry''" and address = "''alice''"
         and signature = "''signature''" and now = 1700000300000 and now' = 1700000300002
         and ?SHA256.0 = sampleDigest and stringify = sampleStringify and validate = alwaysValid
         and newBlock = sampleNewBlock and self = sampleStore and star = "''Polaris''"]
       stale
    by blast
  from expired have
    "submitStar sampleDigest sampleStringify alwaysValid sampleNewBlock rejectingVerify sampleStore
        ''alice'' ''alice:1700000000:starRegistry'' ''signature'' ''Polaris'' 1700000300000 1700000300002
       = (Rejected ChallengeExpiredError, sampleStore)"
    and "submitStar sampleDigest sampleStringify alwaysValid sampleNewBlock acceptingVerify sampleStore
        ''alice'' ''alice:1700000000:starRegistry'' ''signature'' ''Polaris'' 1700000300000 1700000300002
       = (Rejected ChallengeExpiredError, sampleStore)"
    and "submitStar sampleDigest sampleStringify alwaysValid sampleNewBlock throwingVerify sampleStore
        ''alice'' ''alice:1700000000:starRegistry'' ''signature'' ''Polaris'' 1700000300000 1700000300002
       = (Rejected ChallengeExpiredError, sampleStore)"
    by blast+
  with v t fresh stale bad show ?thesis by blast
qed

subsection \<open>getStarsByWalletAddress\<close>

lemma getStars_loop_stop:
  "\<not> i < length chn \<Longrightarrow> getStars_loop getBData owner chn address i stars = Resolved stars"
  by (subst getStars_loop.simps) simp

lemma getStars_loop_fail:
  "i < length chn \<Longrightarrow> getBData (chn ! i) = Inl e \<Longrightarrow>
   getStars_loop getBData owner chn address i stars = Unsettled"
  by (subst getStars_loop.simps) simp

lemma getStars_loop_step:
  "i < length chn \<Longrightarrow> getBData (chn ! i) = Inr d \<Longrightarrow>
   getStars_loop getBData owner chn address i stars =
     getStars_loop getBData owner chn address (i + 1)
       (if owner d = JStr address then stars @ [d] else stars)"
  by (subst getStars_loop.simps) simp

lemma getStars_loop_decoded:
  assumes "\<forall>b \<in> set (drop i chn). getBData b = Inr (decoded b)"
  shows "getStars_loop getBData owner chn address i stars =
           Resolved (stars @ map decoded (filter (\<lambda>b. owner (decoded b) = JStr address) (drop i chn)))"
  using assms
proof (induction "length chn - i" arbitrary: i stars)
  case 0
  then have "\<not> i < length chn" by simp
  then show ?case by (simp add: getStars_loop_stop)
next
  case (Suc k)
  then have lt: "i < length chn" and k: "k = length chn - (i + 1)" by simp_all
  have dr: "drop i chn = chn ! i # drop (i + 1) chn"
    using lt by (simp add: Cons_nth_drop_Suc)
  from Suc.prems dr have here: "getBData (chn ! i) = Inr (decoded (chn ! i))"
    and rest: "\<forall>b \<in> set (drop (i + 1) chn). getBData b = Inr (decoded b)"
    by simp_all
  let ?stars' = "if owner (decoded (chn ! i)) = JStr address then stars @ [decoded (chn ! i)] else stars"
  have "getStars_loop getBData owner chn address i stars =
          getStars_loop getBData owner chn address (i + 1) ?stars'"
    by (rule getStars_loop_step[where getBData = getBData and chn = chn and i = i, OF lt here])
  also have "\<dots> = Resolved (?stars' @
      map decoded (filter (\<lambda>b. owner (decoded b) = JStr address) (drop (i + 1) chn)))"
    by (rule Suc.hyps(1)[OF k rest])
  also have "\<dots> = Resolved (stars @
      map decoded (filter (\<lambda>b. owner (decoded b) = JStr address) (drop i chn)))"
    by (simp add: dr)
  finally show ?case .
qed

lemma getStars_loop_unsettled:
  assumes "i \<le> j" and "j < length chn" and "getBData (chn ! j) = Inl e"
  shows "getStars_loop getBData owner chn address i stars = Unsettled"
  using assms
proof (induction "j - i" arbitrary: i stars)
  case 0
  then have "i = j" by simp
  with 0 show ?case by (simp add: getStars_loop_fail)
next
  case (Suc k)
  then have lt: "i < length chn" and k: "k = j - (i + 1)" and le: "i + 1 \<le> j" by simp_all
  show ?case
  proof (cases "getBData (chn ! i)")
    case (Inl e')
    with lt show ?thesis by (simp add: getStars_loop_fail)
  next
    case (Inr d)
    show ?thesis
      by (simp only: getStars_loop_step[where getBData = getBData and chn = chn and i = i, OF lt Inr]
          Suc.hyps(1)[OF k le Suc.prems(2) Suc.prems(3)])
  qed
qed

lemma heights_sorted:
  assumes "\<forall>i<length chn. Block.height (chn ! i) = i"
  shows "sorted_wrt (<) (map Block.height (filter P (drop n chn)))"
proof -
  have "map Block.height chn = [0 ..< length chn]"
    using assms by (intro nth_equalityI) simp_all
  then have "sorted_wrt (<) (map Block.height chn)" by simp
  then have "sorted_wrt (\<lambda>a b. Block.height a < Block.height b) chn"
    by (simp add: sorted_wrt_map)
  then have "sorted_wrt (\<lambda>a b. Block.height a < Block.height b) (filter P (drop n chn))"
    by (intro sorted_wrt_filter sorted_wrt_drop)
  then show ?thesis by (simp add: sorted_wrt_map)
qed

text \<open>
  C7. When every block after index 0 decodes, \<open>getStarsByWalletAddress\<close> resolves
  with the decoded bodies of exactly those blocks after index 0 whose decoded owner is the
  address, in chain order; this is ascending height order when each block's height is its
  index. The block at index 0 is never looked at.
\<close>

theorem stars_of_wallet:
  assumes "\<forall>b \<in> set (drop 1 (chain self)). getBData b = Inr (decoded b)"
  shows "getStarsByWalletAddress getBData owner self address =
           Resolved (map decoded (filter (\<lambda>b. owner (decoded b) = JStr address) (drop 1 (chain self))))
       \<and> ((\<forall>i<length (chain self). Block.height (chain self ! i) = i) \<longrightarrow>
            sorted_wrt (<) (map Block.height
              (filter (\<lambda>b. owner (decoded b) = JStr address) (drop 1 (chain self)))))"
proof (intro conjI impI)
  show "getStarsByWalletAddress getBData owner self address =
          Resolved (map decoded (filter (\<lambda>b. owner (decoded b) = JStr address) (drop 1 (chain self))))"
    using getStars_loop_decoded[OF assms, of owner address "[]"]
    by (simp add: getStarsByWalletAddress_def)
next
  assume "\<forall>i<length (chain self). Block.height (chain self ! i) = i"
  then show "sorted_wrt (<) (map Block.height
               (filter (\<lambda>b. owner (decoded b) = JStr address) (drop 1 (chain self))))"
    by (rule heights_sorted)
qed

text \<open>
  The four-block store, whose first block names alice as owner: alice's stars are the
  ones of blocks 1 and 3 only.
\<close>

theorem stars_of_wallet_witness:
  "getStarsByWalletAddress sampleGetBData sampleOwner starStore ''alice''
     = Resolved [OwnerStar ''alice'' ''Polaris'', OwnerStar ''alice'' ''Sirius'']
   \<and> sorted_wrt (<) (map Block.height
        (filter (\<lambda>b. sampleOwner (body b) = JStr ''alice'') (drop 1 (chain starStore))))"
proof -
  have dec: "\<forall>b \<in> set (drop 1 (chain starStore)). sampleGetBData b = Inr (body b)"
    by (simp add: starStore_def sampleGetBData_def)
  have num: "\<forall>i<length (chain starStore). Block.height (chain starStore ! i) = i"
    by (auto simp: starStore_def nth_Cons' less_Suc_eq numeral_eq_Suc)
  have sel: "map body (filter (\<lambda>b. sampleOwner (body b) = JStr ''alice'') (drop 1 (chain starStore)))
      = [OwnerStar ''alice'' ''Polaris'', OwnerStar ''alice'' ''Sirius'']"
    by (simp add: starStore_def)
  from stars_of_wallet[OF dec, of sampleOwner "''alice''"] num sel
  show ?thesis by simp
qed

text \<open>
  C8, on the code. When the body of some block after index 0 fails to decode, the promise
  of \<open>getStarsByWalletAddress\<close> is never settled: it neither resolves with partial
  results nor rejects with the decode error.
\<close>

theorem decode_failure_never_settles:
  assumes "1 \<le> i" and "i < length (chain self)" and "getBData (chain self ! i) = Inl e"
  shows "getStarsByWalletAddress getBData owner self address = Unsettled"
  unfolding getStarsByWalletAddress_def using assms by (rule getStars_loop_unsettled)

text \<open>
  The store whose block 2 cannot be decoded.
\<close>

theorem decode_failure_never_settles_witness:
  "(1 :: nat) \<le> 2 \<and> 2 < length (chain garbledStore)
   \<and> sampleGetBData (chain garbledStore ! 2) = Inl ''SyntaxError''
   \<and> getStarsByWalletAddress sampleGetBData sampleOwner garbledStore ''alice'' = Unsettled"
proof -
  have a: "(1 :: nat) \<le> 2" by simp
  have b: "2 < length (chain garbledStore)"
    by (simp add: garbledStore_def starStore_def)
  have c: "sampleGetBData (chain garbledStore ! 2) = Inl ''SyntaxError''"
    by (simp add: garbledStore_def starStore_def sampleGetBData_def)
  from decode_failure_never_settles[where i = 2 and self = garbledStore
         and getBData = sampleGetBData and e = "''SyntaxError''" and owner = sampleOwner
         and address = "''alice''"] a b c
  show ?thesis by simp
qed

end
